theory Spec2Isabelle
  imports Complex_Main
begin

section \<open>Python values\<close>

text \<open>
  A Python float is a finite number, one of the two infinities, or NaN. Only the order of
  floats matters to the trainer's bookkeeping; the finite values are embedded in the reals
  (every finite float is a real number and both orders agree on them).
\<close>

datatype pyfloat = Finite real | PosInf | NegInf | NaN

text \<open>\<^verbatim>\<open>a < b\<close> on floats: every comparison with NaN is false.\<close>

fun flt :: "pyfloat \<Rightarrow> pyfloat \<Rightarrow> bool" where
  "flt NaN b = False"
| "flt a NaN = False"
| "flt (Finite x) (Finite y) = (x < y)"
| "flt (Finite x) PosInf = True"
| "flt (Finite x) NegInf = False"
| "flt PosInf b = False"
| "flt NegInf NegInf = False"
| "flt NegInf b = True"

text \<open>\<^verbatim>\<open>a <= b\<close> on floats.\<close>

fun fle :: "pyfloat \<Rightarrow> pyfloat \<Rightarrow> bool" where
  "fle NaN b = False"
| "fle a NaN = False"
| "fle a b = (a = b \<or> flt a b)"

datatype py_error = TypeError | ValueError | ZeroDivisionError

text \<open>
  The dynamically typed values that reach the constructor parameters and the logged
  dictionaries. \<open>PyObj\<close> is an object of the deep-learning library (model, loader,
  criterion, optimizer, state dictionary), known only by a handle.
\<close>

datatype pyval =
    PyInt int
  | PyFloat pyfloat
  | PyStr string
  | PyNone
  | PyObj nat
  | PyTuple "pyval list"

type_synonym pydict = "(string \<times> pyval) list"

text \<open>
  \<^verbatim>\<open>counter >= patience\<close> with an integer on the left. An integer compares with an
  integer or a float; with a string, None, a tuple or a library object Python raises
  TypeError.
\<close>

fun int_ge :: "int \<Rightarrow> pyval \<Rightarrow> py_error + bool" where
  "int_ge c (PyInt p) = Inr (p \<le> c)"
| "int_ge c (PyFloat f) = Inr (fle f (Finite (real_of_int c)))"
| "int_ge c v = Inl TypeError"


text \<open>
  Float addition and the division by a positive batch count, on the embedding in the reals:
  the rounding and the overflow of the machine operations are not represented, and nothing
  proved below depends on the value of a sum or quotient.
\<close>

fun fadd :: "pyfloat \<Rightarrow> pyfloat \<Rightarrow> pyfloat" where
  "fadd NaN b = NaN"
| "fadd a NaN = NaN"
| "fadd (Finite x) (Finite y) = Finite (x + y)"
| "fadd PosInf NegInf = NaN"
| "fadd NegInf PosInf = NaN"
| "fadd PosInf b = PosInf"
| "fadd NegInf b = NegInf"
| "fadd (Finite x) b = b"

fun fdiv_count :: "pyfloat \<Rightarrow> nat \<Rightarrow> pyfloat" where
  "fdiv_count (Finite x) n = Finite (x / real n)"
| "fdiv_count a n = a"

text \<open>
  Binding the positional arguments of a call to the parameters of a \<^verbatim>\<open>def\<close>: each
  parameter is given by its default (\<open>None\<close> when it has none). Too many arguments, or a
  missing argument without default, raise TypeError.
\<close>

fun bind_positional :: "pyval option list \<Rightarrow> pyval list \<Rightarrow> py_error + pyval list" where
  "bind_positional [] [] = Inr []"
| "bind_positional [] (a # args) = Inl TypeError"
| "bind_positional (d # ds) [] =
     (case d of
        None \<Rightarrow> Inl TypeError
      | Some v \<Rightarrow> (case bind_positional ds [] of Inl e \<Rightarrow> Inl e | Inr vs \<Rightarrow> Inr (v # vs)))"
| "bind_positional (d # ds) (a # args) =
     (case bind_positional ds args of Inl e \<Rightarrow> Inl e | Inr vs \<Rightarrow> Inr (a # vs))"

text \<open>\<^verbatim>\<open>str(n)\<close> for an integer, as the f-string of the checkpoint name formats it.\<close>

fun str_nat :: "nat \<Rightarrow> string" where
  "str_nat n =
     (if n < 10 then [''0123456789'' ! n]
      else str_nat (n div 10) @ [''0123456789'' ! (n mod 10)])"

declare str_nat.simps [simp del]

definition str_int :: "int \<Rightarrow> string" where
  "str_int i = (if i < 0 then CHR ''-'' # str_nat (nat (- i)) else str_nat (nat i))"

text \<open>\<^verbatim>\<open>os.path.join(a, b)\<close> with the POSIX separator.\<close>

definition path_join :: "string \<Rightarrow> string \<Rightarrow> string" where
  "path_join a b =
     (if b \<noteq> [] \<and> hd b = CHR ''/'' then b
      else if a = [] \<or> last a = CHR ''/'' then a @ b
      else a @ ''/'' @ b)"

text \<open>\<^verbatim>\<open>os.path.basename(p)\<close>: what follows the last separator.\<close>

definition basename :: "string \<Rightarrow> string" where
  "basename p = rev (takeWhile (\<lambda>c. c \<noteq> CHR ''/'') (rev p))"

section \<open>Effects\<close>

text \<open>
  What the program does to the outside is recorded as a trace of events, in the order of
  the calls: the messages given to the logger, the calls of the experiment tracker, and the
  files written by \<^verbatim>\<open>torch.save\<close> (the saved object and the path).
\<close>

datatype log_msg =
    TrainingLossMsg int pyfloat
  | ValidationLossMsg int pyfloat
  | EarlyStoppingMsg int
  | CheckpointSavedMsg int

datatype event =
    LoggerInfo log_msg
  | WandbInit pydict
  | WandbConfigUpdate pydict
  | WandbLog pydict
  | WandbFinish
  | TorchSave pydict string

fun wandb_logs :: "event list \<Rightarrow> pydict list" where
  "wandb_logs [] = []"
| "wandb_logs (WandbLog d # evs) = d # wandb_logs evs"
| "wandb_logs (ev # evs) = wandb_logs evs"

fun torch_saves :: "event list \<Rightarrow> (pydict \<times> string) list" where
  "torch_saves [] = []"
| "torch_saves (TorchSave c p # evs) = (c, p) # torch_saves evs"
| "torch_saves (ev # evs) = torch_saves evs"

fun wandb_inits :: "event list \<Rightarrow> pydict list" where
  "wandb_inits [] = []"
| "wandb_inits (WandbInit kw # evs) = kw # wandb_inits evs"
| "wandb_inits (ev # evs) = wandb_inits evs"

fun wandb_config_updates :: "event list \<Rightarrow> pydict list" where
  "wandb_config_updates [] = []"
| "wandb_config_updates (WandbConfigUpdate d # evs) = d # wandb_config_updates evs"
| "wandb_config_updates (ev # evs) = wandb_config_updates evs"

section \<open>SemanticSegmentationTrainer\<close>

record trainer =
  model :: pyval
  train_loader :: pyval
  val_loader :: pyval
  criterion :: pyval
  optimizer :: pyval
  num_epochs :: pyval
  patience :: pyval
  log_dir :: pyval
  early_stopping_counter :: int
  best_val_loss :: pyfloat

text \<open>
  \<^verbatim>\<open>early_stopping(self, val_loss)\<close>: the two attributes are updated first, then the
  comparison with the patience is returned (or raises). The updated trainer is returned in
  both cases, as the mutation has happened when the comparison raises.
\<close>

definition early_stopping :: "trainer \<Rightarrow> pyfloat \<Rightarrow> trainer \<times> (py_error + bool)" where
  "early_stopping t val_loss =
     (let t' = (if flt val_loss (best_val_loss t)
                then t\<lparr>best_val_loss := val_loss, early_stopping_counter := 0\<rparr>
                else t\<lparr>early_stopping_counter := early_stopping_counter t + 1\<rparr>)
      in (t', int_ge (early_stopping_counter t') (patience t')))"

text \<open>
  \<^verbatim>\<open>__init__(self, model, train_loader, val_loader, criterion, optimizer,
  num_epochs=10, patience=5, log_dir='logs')\<close>: the arguments are bound by position, the
  counter starts at zero and the best validation loss at positive infinity. The creation of
  the log directory, an effect on the file system that no later step of the trainer reads,
  is not part of the trace.
\<close>

definition trainer_defaults :: "pyval option list" where
  "trainer_defaults =
     [None, None, None, None, None, Some (PyInt 10), Some (PyInt 5), Some (PyStr ''logs'')]"

definition SemanticSegmentationTrainer_init :: "pyval list \<Rightarrow> py_error + trainer" where
  "SemanticSegmentationTrainer_init args =
     (case bind_positional trainer_defaults args of
        Inl e \<Rightarrow> Inl e
      | Inr [mdl, trn, vld, crit, opt, ne, pat, ld] \<Rightarrow>
          Inr \<lparr>model = mdl, train_loader = trn, val_loader = vld, criterion = crit, optimizer = opt,
               num_epochs = ne, patience = pat, log_dir = ld,
               early_stopping_counter = 0, best_val_loss = PosInf\<rparr>
      | Inr vs \<Rightarrow> Inl TypeError)"

text \<open>
  \<^verbatim>\<open>save_checkpoint(self, epoch, model_state, optimizer_state, train_loss, val_loss)\<close>:
  the dictionary of five entries is saved under the joined path, then the logger is told.
  Joining a log directory that is not a string raises TypeError before anything is written.
\<close>

definition checkpoint_name :: "int \<Rightarrow> string" where
  "checkpoint_name epoch = ''checkpoint_epoch_'' @ str_int epoch @ ''.pt''"

definition save_checkpoint ::
  "trainer \<Rightarrow> int \<Rightarrow> pyval \<Rightarrow> pyval \<Rightarrow> pyfloat \<Rightarrow> pyfloat \<Rightarrow> py_error + event list" where
  "save_checkpoint t epoch model_state optimizer_state train_loss val_loss =
     (let checkpoint =
            [(''epoch'', PyInt epoch),
             (''model_state_dict'', model_state),
             (''optimizer_state_dict'', optimizer_state),
             (''train_loss'', PyFloat train_loss),
             (''val_loss'', PyFloat val_loss)]
      in case log_dir t of
           PyStr d \<Rightarrow>
             Inr [TorchSave checkpoint (path_join d (checkpoint_name epoch)),
                  LoggerInfo (CheckpointSavedMsg epoch)]
         | v \<Rightarrow> Inl TypeError)"

text \<open>\<^verbatim>\<open>log_to_wandb(self, epoch, train_loss, val_loss)\<close>: one call of \<^verbatim>\<open>wandb.log\<close>.\<close>

definition log_to_wandb :: "int \<Rightarrow> pyfloat \<Rightarrow> pyfloat \<Rightarrow> event list" where
  "log_to_wandb epoch train_loss val_loss =
     [WandbLog [(''epoch'', PyInt epoch),
                (''train_loss'', PyFloat train_loss),
                (''val_loss'', PyFloat val_loss)]]"

text \<open>
  What the deep-learning library yields during one epoch of \<open>train\<close>: the value of
  \<^verbatim>\<open>loss.item()\<close> for each batch of the training loader and of the validation loader, and
  the two state dictionaries read when the checkpoint is saved.
\<close>

record epoch_env =
  train_batch_losses :: "pyfloat list"
  val_batch_losses :: "pyfloat list"
  model_state_dict :: pyval
  optimizer_state_dict :: pyval

text \<open>
  \<^verbatim>\<open>total = 0; for ...: total += loss.item()\<close> and then \<^verbatim>\<open>total / len(loader)\<close>,
  which raises ZeroDivisionError for a loader without batches.
\<close>

definition total_loss :: "pyfloat list \<Rightarrow> pyfloat" where
  "total_loss losses = foldl fadd (Finite 0) losses"

definition average_loss :: "pyfloat list \<Rightarrow> py_error + pyfloat" where
  "average_loss losses =
     (if length losses = 0 then Inl ZeroDivisionError
      else Inr (fdiv_count (total_loss losses) (length losses)))"

text \<open>
  The values of \<^verbatim>\<open>avg_loss\<close> and \<^verbatim>\<open>avg_val_loss\<close> in an epoch whose loaders are not
  empty, for the statements about what is logged and saved.
\<close>

definition avg_loss :: "epoch_env \<Rightarrow> pyfloat" where
  "avg_loss env = fdiv_count (total_loss (train_batch_losses env)) (length (train_batch_losses env))"

definition avg_val_loss :: "epoch_env \<Rightarrow> pyfloat" where
  "avg_val_loss env = fdiv_count (total_loss (val_batch_losses env)) (length (val_batch_losses env))"

text \<open>One turn of the epoch loop of \<open>train\<close>, and how the loop goes on after it.\<close>

datatype step = Next | Break | Raise py_error

definition train_epoch :: "epoch_env \<Rightarrow> nat \<Rightarrow> trainer \<Rightarrow> trainer \<times> event list \<times> step" where
  "train_epoch env epoch t =
     (case average_loss (train_batch_losses env) of
        Inl e \<Rightarrow> (t, [], Raise e)
      | Inr avg \<Rightarrow>
          (let evs1 = [LoggerInfo (TrainingLossMsg (int epoch) avg)] in
           case average_loss (val_batch_losses env) of
             Inl e \<Rightarrow> (t, evs1, Raise e)
           | Inr avg_val \<Rightarrow>
               (let evs2 = evs1 @ [LoggerInfo (ValidationLossMsg (int epoch) avg_val)]
                             @ log_to_wandb (int epoch) avg avg_val;
                    (t', stop) = early_stopping t avg_val
                in case stop of
                     Inl e \<Rightarrow> (t', evs2, Raise e)
                   | Inr True \<Rightarrow> (t', evs2 @ [LoggerInfo (EarlyStoppingMsg (int epoch))], Break)
                   | Inr False \<Rightarrow>
                       (case save_checkpoint t' (int epoch) (model_state_dict env)
                               (optimizer_state_dict env) avg avg_val of
                          Inl e \<Rightarrow> (t', evs2, Raise e)
                        | Inr evs3 \<Rightarrow> (t', evs2 @ evs3, Next)))))"

text \<open>
  How \<open>train\<close> ends: the loop ran through all its epochs, it was left by \<^verbatim>\<open>break\<close> at an
  epoch, or an exception left it.
\<close>

datatype outcome = Exhausted | EarlyStop nat | Raised py_error

fun train_epochs :: "(nat \<Rightarrow> epoch_env) \<Rightarrow> nat list \<Rightarrow> trainer \<Rightarrow> trainer \<times> event list \<times> outcome" where
  "train_epochs env [] t = (t, [], Exhausted)"
| "train_epochs env (epoch # epochs) t =
     (case train_epoch (env epoch) epoch t of
        (t', evs, Next) \<Rightarrow>
          (case train_epochs env epochs t' of (t'', evs', out) \<Rightarrow> (t'', evs @ evs', out))
      | (t', evs, Break) \<Rightarrow> (t', evs, EarlyStop epoch)
      | (t', evs, Raise e) \<Rightarrow> (t', evs, Raised e))"

text \<open>
  \<^verbatim>\<open>train(self)\<close>: \<^verbatim>\<open>for epoch in range(self.num_epochs)\<close>; \<^verbatim>\<open>range\<close> of anything but an
  integer raises TypeError, and of a negative integer is empty.
\<close>

definition train :: "(nat \<Rightarrow> epoch_env) \<Rightarrow> trainer \<Rightarrow> trainer \<times> event list \<times> outcome" where
  "train env t =
     (case num_epochs t of
        PyInt n \<Rightarrow> train_epochs env [0..<nat n] t
      | v \<Rightarrow> (t, [], Raised TypeError))"

section \<open>SemanticSegmentationDataset\<close>

text \<open>
  A Python callable with a fixed number of positional parameters: a call with another
  number of arguments raises TypeError before the body runs.
\<close>

record callable =
  n_params :: nat
  call_body :: "pyval list \<Rightarrow> py_error + pyval"

definition py_call :: "callable \<Rightarrow> pyval list \<Rightarrow> py_error + pyval" where
  "py_call f args = (if length args = n_params f then call_body f args else Inl TypeError)"

text \<open>
  \<^verbatim>\<open>a, b = v\<close>: a tuple of two components unpacks, a tuple of another length raises
  ValueError, a string of two characters unpacks into them, and a value that cannot be
  iterated raises TypeError (library objects are taken as such).
\<close>

fun unpack2 :: "pyval \<Rightarrow> py_error + (pyval \<times> pyval)" where
  "unpack2 (PyTuple [a, b]) = Inr (a, b)"
| "unpack2 (PyTuple vs) = Inl ValueError"
| "unpack2 (PyStr [a, b]) = Inr (PyStr [a], PyStr [b])"
| "unpack2 (PyStr cs) = Inl ValueError"
| "unpack2 v = Inl TypeError"

text \<open>
  The wrapper keeps the library dataset in \<^verbatim>\<open>self.dataset\<close>. Of that object the model
  keeps the item access \<^verbatim>\<open>self.dataset[idx]\<close>, whose outcome is the library's, and the
  attribute \<^verbatim>\<open>self.dataset.transform\<close>, which is the \<^verbatim>\<open>transform\<close> argument of the
  constructor (\<open>None\<close> by default).
\<close>

record segmentation_dataset =
  dataset_item :: "int \<Rightarrow> py_error + pyval"
  dataset_transform :: "callable option"

definition SemanticSegmentationDataset_init ::
  "(int \<Rightarrow> py_error + pyval) \<Rightarrow> callable option \<Rightarrow> segmentation_dataset" where
  "SemanticSegmentationDataset_init voc transform =
     \<lparr>dataset_item = voc, dataset_transform = transform\<rparr>"

text \<open>\<^verbatim>\<open>__getitem__(self, idx)\<close>.\<close>

definition getitem :: "segmentation_dataset \<Rightarrow> int \<Rightarrow> py_error + (pyval \<times> pyval)" where
  "getitem ds idx =
     (case dataset_item ds idx of
        Inl e \<Rightarrow> Inl e
      | Inr item \<Rightarrow>
          (case unpack2 item of
             Inl e \<Rightarrow> Inl e
           | Inr (img, msk) \<Rightarrow>
               (case dataset_transform ds of
                  None \<Rightarrow> Inr (img, msk)
                | Some f \<Rightarrow>
                    (case py_call f [img, msk] of
                       Inl e \<Rightarrow> Inl e
                     | Inr r \<Rightarrow> unpack2 r))))"





section \<open>UNet\<close>

text \<open>
  \<^verbatim>\<open>def __init__():\<close> declares no parameter at all, and instantiating the class passes
  the new instance as the first positional argument: \<^verbatim>\<open>UNet()\<close> raises TypeError.
\<close>

definition UNet :: "py_error + pyval" where
  "UNet = (case bind_positional [] [PyObj 0] of Inl e \<Rightarrow> Inl e | Inr vs \<Rightarrow> Inr (PyObj 0))"

section \<open>SemanticSegmentationPipeline\<close>

record pipeline =
  root :: string
  year :: string
  train_batch_size :: int
  val_batch_size :: int
  pipeline_num_epochs :: int
  seed :: int
  pipeline_log_dir :: string

text \<open>\<^verbatim>\<open>SemanticSegmentationPipeline()\<close> with every default.\<close>

definition SemanticSegmentationPipeline_default :: pipeline where
  "SemanticSegmentationPipeline_default =
     \<lparr>root = ''./data'', year = ''2012'', train_batch_size = 64, val_batch_size = 64,
      pipeline_num_epochs = 10, seed = 42, pipeline_log_dir = ''logs''\<rparr>"

definition wandb_config :: "pipeline \<Rightarrow> pydict" where
  "wandb_config p =
     [(''root'', PyStr (root p)),
      (''year'', PyStr (year p)),
      (''train_batch_size'', PyInt (train_batch_size p)),
      (''val_batch_size'', PyInt (val_batch_size p)),
      (''num_epochs'', PyInt (pipeline_num_epochs p)),
      (''seed'', PyInt (seed p)),
      (''log_dir'', PyStr (pipeline_log_dir p))]"



text \<open>
  The arguments of the constructor call at the end of \<open>run\<close>, all positional:
  \<^verbatim>\<open>SemanticSegmentationTrainer(model, train_dataset, val_dataset, criterion, optimizer,
  self.num_epochs, self.log_dir)\<close>. The two datasets, the criterion and the optimizer are
  library objects.
\<close>

definition run_trainer_args :: "pipeline \<Rightarrow> pyval \<Rightarrow> pyval list" where
  "run_trainer_args p mdl =
     [mdl, PyObj 1, PyObj 2, PyObj 3, PyObj 4,
      PyInt (pipeline_num_epochs p), PyStr (pipeline_log_dir p)]"

text \<open>
  \<^verbatim>\<open>run(self)\<close>. The outcome of the model constructor call \<^verbatim>\<open>UNet()\<close> is the parameter
  \<open>unet\<close>: the class is the placeholder the user is to implement, and \<open>UNet\<close> above is what
  the placeholder does.
\<close>

definition run :: "pipeline \<Rightarrow> (py_error + pyval) \<Rightarrow> (nat \<Rightarrow> epoch_env) \<Rightarrow> event list \<times> outcome" where
  "run p unet env =
     (let evs0 = [WandbInit [], WandbConfigUpdate (wandb_config p)] in
      case unet of
        Inl e \<Rightarrow> (evs0, Raised e)
      | Inr mdl \<Rightarrow>
          (case SemanticSegmentationTrainer_init (run_trainer_args p mdl) of
             Inl e \<Rightarrow> (evs0, Raised e)
           | Inr trainer \<Rightarrow>
               (case train env trainer of (t', evs, out) \<Rightarrow> (evs0 @ evs, out))))"

text \<open>
  The script block under \<^verbatim>\<open>if __name__ == "__main__"\<close>: the tracker is initialised with
  the project name, the default pipeline runs, and the tracker is finished when \<open>run\<close>
  returns.
\<close>

definition main_block :: "(py_error + pyval) \<Rightarrow> (nat \<Rightarrow> epoch_env) \<Rightarrow> event list \<times> outcome" where
  "main_block unet env =
     (case run SemanticSegmentationPipeline_default unet env of
        (evs, out) \<Rightarrow>
          ([WandbInit [(''project'', PyStr ''semantic-segmentation'')]] @ evs
             @ (case out of Raised e \<Rightarrow> [] | _ \<Rightarrow> [WandbFinish]),
           out))"

section \<open>Notions of the specification\<close>

text \<open>The trainer after a sequence of \<open>early_stopping\<close> calls, one per validation loss.\<close>

definition early_stopping_calls :: "trainer \<Rightarrow> pyfloat list \<Rightarrow> trainer" where
  "early_stopping_calls t vs = foldl (\<lambda>t v. fst (early_stopping t v)) t vs"

text \<open>
  \<open>m\<close> is the minimum of the values \<open>xs\<close>: it is one of them, none of them is strictly
  lower, and it is at most every one of them that can be compared (NaN cannot).
\<close>

definition is_minimum_of :: "pyfloat \<Rightarrow> pyfloat list \<Rightarrow> bool" where
  "is_minimum_of m xs =
     (m \<in> set xs \<and> (\<forall>x \<in> set xs. \<not> flt x m) \<and> (\<forall>x \<in> set xs. x \<noteq> NaN \<longrightarrow> fle m x))"

text \<open>Python's \<^verbatim>\<open>min(m, *vs)\<close>: a later value replaces the current one when it is lower.\<close>

fun py_min :: "pyfloat \<Rightarrow> pyfloat list \<Rightarrow> pyfloat" where
  "py_min m [] = m"
| "py_min m (v # vs) = py_min (if flt v m then v else m) vs"





section \<open>A sample run\<close>

text \<open>
  Concrete inputs on which the theorems below are instantiated: a trainer constructed for
  four epochs with patience two, and a library whose validation loss is 1 in the first
  epoch and 2 in every later one, so that the run stops early at epoch 2.
\<close>

definition sample_args :: "pyval list" where
  "sample_args = [PyObj 0, PyObj 1, PyObj 2, PyObj 3, PyObj 4, PyInt 4, PyInt 2]"

definition sample_trainer :: trainer where
  "sample_trainer =
     \<lparr>model = PyObj 0, train_loader = PyObj 1, val_loader = PyObj 2, criterion = PyObj 3,
      optimizer = PyObj 4, num_epochs = PyInt 4, patience = PyInt 2, log_dir = PyStr ''logs'',
      early_stopping_counter = 0, best_val_loss = PosInf\<rparr>"

definition sample_env :: "nat \<Rightarrow> epoch_env" where
  "sample_env e =
     \<lparr>train_batch_losses = [Finite 1, Finite 3],
      val_batch_losses = [if e = 0 then Finite 1 else Finite 2],
      model_state_dict = PyObj 5, optimizer_state_dict = PyObj 6\<rparr>"



section \<open>Early stopping bookkeeping\<close>

text \<open>
  C1. For every call of \<open>early_stopping\<close> with validation loss \<open>v\<close>, on any trainer: when
  \<open>v\<close> is strictly lower than the current \<open>best_val_loss\<close>, the counter becomes zero and
  \<open>best_val_loss\<close> becomes \<open>v\<close>; otherwise the counter grows by exactly one and
  \<open>best_val_loss\<close> stays. Nothing else of the trainer changes.
\<close>

theorem early_stopping_counter_update:
  "early_stopping_counter (fst (early_stopping t v)) =
     (if flt v (best_val_loss t) then 0 else early_stopping_counter t + 1)
   \<and> best_val_loss (fst (early_stopping t v)) =
     (if flt v (best_val_loss t) then v else best_val_loss t)
   \<and> patience (fst (early_stopping t v)) = patience t
   \<and> num_epochs (fst (early_stopping t v)) = num_epochs t
   \<and> log_dir (fst (early_stopping t v)) = log_dir t"
  by (simp add: early_stopping_def Let_def)

text \<open>On the sample trainer: a loss that improves, and one that does not.\<close>

theorem early_stopping_counter_update_witness:
  "early_stopping_counter (fst (early_stopping sample_trainer (Finite 1))) = 0
   \<and> best_val_loss (fst (early_stopping sample_trainer (Finite 1))) = Finite 1
   \<and> early_stopping_counter (fst (early_stopping sample_trainer PosInf)) = 1
   \<and> best_val_loss (fst (early_stopping sample_trainer PosInf)) = PosInf"
  using early_stopping_counter_update [of sample_trainer "Finite 1"]
    early_stopping_counter_update [of sample_trainer PosInf]
  by (simp add: sample_trainer_def)

subsection \<open>The order of floats\<close>

lemma flt_irrefl: "\<not> flt a a"
  by (cases a) auto

lemma flt_trans: "flt a b \<Longrightarrow> flt b c \<Longrightarrow> flt a c"
  by (cases a; cases b; cases c) auto

lemma flt_not_NaN: "flt a b \<Longrightarrow> a \<noteq> NaN \<and> b \<noteq> NaN"
  by (cases a; cases b) auto

lemma fle_total: "a \<noteq> NaN \<Longrightarrow> b \<noteq> NaN \<Longrightarrow> \<not> flt a b \<Longrightarrow> fle b a"
  by (cases a; cases b) auto

lemma fle_antisym: "fle a b \<Longrightarrow> fle b a \<Longrightarrow> a = b"
  by (cases a; cases b) auto

lemma fle_not_NaN: "fle a b \<Longrightarrow> a \<noteq> NaN"
  by (cases a; cases b) auto

subsection \<open>The lowest loss of a history\<close>

lemma py_min_below: "\<not> flt x m \<Longrightarrow> \<not> flt x (py_min m vs)"
proof (induction vs arbitrary: m)
  case Nil
  then show ?case by simp
next
  case (Cons v vs)
  have "\<not> flt x (if flt v m then v else m)"
    using Cons.prems flt_trans by auto
  then show ?case using Cons.IH by simp
qed

lemma py_min_lower: "x \<in> set vs \<Longrightarrow> \<not> flt x (py_min m vs)"
proof (induction vs arbitrary: m)
  case Nil
  then show ?case by simp
next
  case (Cons v vs)
  show ?case
  proof (cases "x = v")
    case True
    have "\<not> flt v (if flt v m then v else m)"
      by (simp add: flt_irrefl)
    then show ?thesis using True py_min_below by simp
  next
    case False
    then show ?thesis using Cons by simp
  qed
qed

lemma py_min_member: "py_min m vs \<in> set (m # vs)"
  by (induction vs arbitrary: m) auto

lemma py_min_not_NaN: "m \<noteq> NaN \<Longrightarrow> py_min m vs \<noteq> NaN"
proof (induction vs arbitrary: m)
  case Nil
  then show ?case by simp
next
  case (Cons v vs)
  then show ?case using flt_not_NaN by (cases "flt v m") auto
qed

lemma py_min_is_minimum: "m \<noteq> NaN \<Longrightarrow> is_minimum_of (py_min m vs) (m # vs)"
  unfolding is_minimum_of_def
  using py_min_member [of m vs] py_min_lower [of _ vs m] py_min_below [of m m vs]
    py_min_not_NaN [of m vs] fle_total flt_irrefl
  by (metis set_ConsD)

lemma is_minimum_of_unique:
  assumes "is_minimum_of m xs" and "is_minimum_of m' xs" and "x \<in> set xs" and "x \<noteq> NaN"
  shows "m = m'"
proof -
  have "fle m x" "fle m' x" using assms by (auto simp: is_minimum_of_def)
  then have "m \<noteq> NaN" "m' \<noteq> NaN" using fle_not_NaN by auto
  moreover have "m \<in> set xs" "m' \<in> set xs" using assms by (auto simp: is_minimum_of_def)
  ultimately have "fle m m'" "fle m' m" using assms(1,2) by (auto simp: is_minimum_of_def)
  then show ?thesis by (rule fle_antisym)
qed

subsection \<open>Sequences of calls\<close>


lemma best_val_loss_calls:
  "best_val_loss (early_stopping_calls t vs) = py_min (best_val_loss t) vs"
  by (induction vs arbitrary: t)
     (simp_all add: early_stopping_calls_def early_stopping_def Let_def)

lemma calls_fields:
  "patience (early_stopping_calls t vs) = patience t"
  "num_epochs (early_stopping_calls t vs) = num_epochs t"
  "log_dir (early_stopping_calls t vs) = log_dir t"
  by (induction vs arbitrary: t)
     (simp_all add: early_stopping_calls_def early_stopping_def Let_def)

lemma counter_nonneg_calls:
  "0 \<le> early_stopping_counter t \<Longrightarrow> 0 \<le> early_stopping_counter (early_stopping_calls t vs)"
  by (induction vs arbitrary: t)
     (simp_all add: early_stopping_calls_def early_stopping_def Let_def)

lemma trainer_init_fresh:
  "SemanticSegmentationTrainer_init args = Inr t \<Longrightarrow>
     early_stopping_counter t = 0 \<and> best_val_loss t = PosInf"
  by (auto simp: SemanticSegmentationTrainer_init_def split: sum.splits list.splits)





text \<open>
  C4. From a freshly constructed trainer, after any sequence \<open>vs\<close> of \<open>early_stopping\<close>
  calls (so after each call of a longer sequence), \<open>best_val_loss\<close> is the minimum of
  positive infinity and the validation losses seen: it is one of these values, none of them
  is strictly lower, and it is at most each of them that is not NaN (these three facts
  determine it, see \<open>is_minimum_of_unique\<close>). And one call, on any trainer, leaves
  \<open>best_val_loss\<close> unchanged or makes it strictly lower.
\<close>

theorem best_val_loss_is_minimum:
  assumes "SemanticSegmentationTrainer_init args = Inr t0"
  shows "is_minimum_of (best_val_loss (early_stopping_calls t0 vs)) (PosInf # vs)
     \<and> (best_val_loss (fst (early_stopping t v)) = best_val_loss t
        \<or> flt (best_val_loss (fst (early_stopping t v))) (best_val_loss t))"
proof
  have "best_val_loss t0 = PosInf" using trainer_init_fresh [OF assms] by simp
  then show "is_minimum_of (best_val_loss (early_stopping_calls t0 vs)) (PosInf # vs)"
    using py_min_is_minimum [of PosInf vs] by (simp add: best_val_loss_calls)
  show "best_val_loss (fst (early_stopping t v)) = best_val_loss t
        \<or> flt (best_val_loss (fst (early_stopping t v))) (best_val_loss t)"
    by (simp add: early_stopping_def Let_def)
qed

section \<open>The sample run, evaluated\<close>

lemma sample_init: "SemanticSegmentationTrainer_init sample_args = Inr sample_trainer"
  by (simp add: SemanticSegmentationTrainer_init_def sample_args_def sample_trainer_def
      trainer_defaults_def)

lemma sample_trainer_fields:
  "patience sample_trainer = PyInt 2" "num_epochs sample_trainer = PyInt 4"
  "log_dir sample_trainer = PyStr ''logs''"
  by (simp_all add: sample_trainer_def)


lemma sample_outcome: "snd (snd (train sample_env sample_trainer)) = EarlyStop 2"
  by code_simp

lemma sample_train_triple:
  "train sample_env sample_trainer =
     (fst (train sample_env sample_trainer),
      fst (snd (train sample_env sample_trainer)),
      snd (snd (train sample_env sample_trainer)))"
  by simp

text \<open>The minimum of the losses 3, NaN, 1, 2 and positive infinity is 1.\<close>

theorem best_val_loss_is_minimum_witness: "is_minimum_of (Finite 1) [PosInf, Finite 3, NaN, Finite 1, Finite 2]"
proof -
  have b: "best_val_loss (early_stopping_calls sample_trainer [Finite 3, NaN, Finite 1, Finite 2])
           = Finite 1"
    by code_simp
  show ?thesis
    using best_val_loss_is_minimum [OF sample_init, of "[Finite 3, NaN, Finite 1, Finite 2]"] b by simp
qed

section \<open>The epoch loop\<close>

lemma average_loss_nonempty:
  "xs \<noteq> [] \<Longrightarrow> average_loss xs = Inr (fdiv_count (total_loss xs) (length xs))"
  by (simp add: average_loss_def)









subsection \<open>What the loop writes\<close>


lemma torch_saves_append: "torch_saves (xs @ ys) = torch_saves xs @ torch_saves ys"
  by (induction xs rule: torch_saves.induct) simp_all

lemma early_stopping_log_dir: "log_dir (fst (early_stopping t v)) = log_dir t"
  by (simp add: early_stopping_def Let_def)


lemma train_epoch_saves:
  assumes "train_epoch env e t = (t', evs, s)" and "log_dir t = PyStr d"
  shows "torch_saves evs =
           (if s = Next
            then [([(''epoch'', PyInt (int e)),
                    (''model_state_dict'', model_state_dict env),
                    (''optimizer_state_dict'', optimizer_state_dict env),
                    (''train_loss'', PyFloat (avg_loss env)),
                    (''val_loss'', PyFloat (avg_val_loss env))],
                   path_join d (checkpoint_name (int e)))]
            else [])
         \<and> log_dir t' = PyStr d"
  using assms
  by (auto simp: train_epoch_def average_loss_def avg_loss_def avg_val_loss_def
      log_to_wandb_def save_checkpoint_def Let_def early_stopping_def
      split: sum.splits if_splits prod.splits bool.splits)


lemma train_epochs_saves:
  "train_epochs env es t = (t', evs, out) \<Longrightarrow> log_dir t = PyStr d \<Longrightarrow>
   \<exists>k \<le> length es.
      torch_saves evs = map (\<lambda>e. ([(''epoch'', PyInt (int e)),
                    (''model_state_dict'', model_state_dict (env e)),
                    (''optimizer_state_dict'', optimizer_state_dict (env e)),
                    (''train_loss'', PyFloat (avg_loss (env e))),
                    (''val_loss'', PyFloat (avg_val_loss (env e)))],
                   path_join d (checkpoint_name (int e)))) (take k es)
      \<and> (out = Exhausted \<longrightarrow> k = length es)
      \<and> (\<forall>e. out = EarlyStop e \<longrightarrow> k < length es \<and> es ! k = e)"
proof (induction es arbitrary: t t' evs out)
  case Nil
  then show ?case by auto
next
  case (Cons e es)
  obtain t1 evs1 s where step: "train_epoch (env e) e t = (t1, evs1, s)"
    by (cases "train_epoch (env e) e t") auto
  note saves1 = train_epoch_saves [OF step Cons.prems(2)]
  show ?case
  proof (cases s)
    case Next
    obtain t2 evs2 out2 where rest: "train_epochs env es t1 = (t2, evs2, out2)"
      by (cases "train_epochs env es t1") auto
    have ld: "log_dir t1 = PyStr d" using saves1 by simp
    from Cons.IH [OF rest ld] obtain k where k: "k \<le> length es"
      "torch_saves evs2 = map (\<lambda>e. ([(''epoch'', PyInt (int e)),
                    (''model_state_dict'', model_state_dict (env e)),
                    (''optimizer_state_dict'', optimizer_state_dict (env e)),
                    (''train_loss'', PyFloat (avg_loss (env e))),
                    (''val_loss'', PyFloat (avg_val_loss (env e)))],
                   path_join d (checkpoint_name (int e)))) (take k es)"
      "out2 = Exhausted \<longrightarrow> k = length es"
      "\<forall>e. out2 = EarlyStop e \<longrightarrow> k < length es \<and> es ! k = e"
      by blast
    have res: "evs = evs1 @ evs2" "out = out2"
      using Cons.prems step rest Next by simp_all
    show ?thesis
      using k saves1 Next res
      by (intro exI [of _ "Suc k"]) (auto simp: torch_saves_append)
  next
    case Break
    then have "evs = evs1" "out = EarlyStop e"
      using Cons.prems step by simp_all
    then show ?thesis
      using saves1 Break by (intro exI [of _ 0]) auto
  next
    case (Raise err)
    then have res: "evs = evs1" "out = Raised err"
      using Cons.prems step by simp_all
    then show ?thesis
      using saves1 Raise by (intro exI [of _ 0]) auto
  qed
qed

text \<open>
  C3. In every run of \<open>train\<close> with a log directory \<open>d\<close>, the checkpoint files written are
  those of the epochs \<open>0, ..., k - 1\<close>, one file each and in this order, so with strictly
  increasing epoch indices, where \<open>k\<close> is the epoch at which early stopping triggered (no
  file is written for that epoch), or the number of epochs when the loop ran through.
\<close>

theorem checkpoints_once_per_completed_epoch:
  assumes "num_epochs t = PyInt n" and "log_dir t = PyStr d" and "train env t = (t', evs, out)"
  shows "\<exists>k \<le> nat n.
      map snd (torch_saves evs) = map (\<lambda>e. path_join d (checkpoint_name (int e))) [0..<k]
    \<and> map (\<lambda>(c, p). map_of c ''epoch'') (torch_saves evs) = map (\<lambda>e. Some (PyInt (int e))) [0..<k]
    \<and> (out = Exhausted \<longrightarrow> k = nat n)
    \<and> (\<forall>e. out = EarlyStop e \<longrightarrow> k = e)"
proof -
  have run: "train_epochs env [0..<nat n] t = (t', evs, out)"
    using assms(1,3) by (simp add: train_def)
  from train_epochs_saves [OF run assms(2)] obtain k where k0: "k \<le> length [0..<nat n]"
    and saves: "torch_saves evs = map (\<lambda>e. ([(''epoch'', PyInt (int e)),
                    (''model_state_dict'', model_state_dict (env e)),
                    (''optimizer_state_dict'', optimizer_state_dict (env e)),
                    (''train_loss'', PyFloat (avg_loss (env e))),
                    (''val_loss'', PyFloat (avg_val_loss (env e)))],
                   path_join d (checkpoint_name (int e)))) (take k [0..<nat n])"
    and ex: "out = Exhausted \<longrightarrow> k = length [0..<nat n]"
    and st: "\<forall>e. out = EarlyStop e \<longrightarrow> k < length [0..<nat n] \<and> [0..<nat n] ! k = e"
    by blast
  have k: "k \<le> nat n" using k0 by simp
  have tk: "take k [0..<nat n] = [0..<k]"
    using k by (simp add: take_upt)
  show ?thesis
  proof (intro exI [of _ k] conjI)
    show "k \<le> nat n" by (rule k)
    show "map snd (torch_saves evs) = map (\<lambda>e. path_join d (checkpoint_name (int e))) [0..<k]"
      by (simp add: saves tk)
    show "map (\<lambda>(c, p). map_of c ''epoch'') (torch_saves evs) = map (\<lambda>e. Some (PyInt (int e))) [0..<k]"
      by (simp add: saves tk)
    show "out = Exhausted \<longrightarrow> k = nat n" using ex by simp
    show "\<forall>e. out = EarlyStop e \<longrightarrow> k = e" using st by auto
  qed
qed

text \<open>The sample run, which stops at epoch 2, writes the checkpoints of epochs 0 and 1.\<close>

theorem checkpoints_once_per_completed_epoch_witness:
  "map snd (torch_saves (fst (snd (train sample_env sample_trainer)))) =
     [''logs/checkpoint_epoch_0.pt'', ''logs/checkpoint_epoch_1.pt'']"
proof -
  obtain k where
    saves: "map snd (torch_saves (fst (snd (train sample_env sample_trainer)))) =
              map (\<lambda>e. path_join ''logs'' (checkpoint_name (int e))) [0..<k]"
    and stop: "\<forall>e. snd (snd (train sample_env sample_trainer)) = EarlyStop e \<longrightarrow> k = e"
    using checkpoints_once_per_completed_epoch [OF sample_trainer_fields(2) sample_trainer_fields(3) sample_train_triple]
    by blast
  have k: "k = Suc (Suc 0)" using stop sample_outcome by simp
  have p0: "path_join ''logs'' (checkpoint_name 0) = ''logs/checkpoint_epoch_0.pt''"
    by code_simp
  have p1: "path_join ''logs'' (checkpoint_name 1) = ''logs/checkpoint_epoch_1.pt''"
    by code_simp
  show ?thesis
    unfolding saves k using p0 p1 by simp
qed



section \<open>Checkpoints\<close>

lemma digit_not_slash: "k < 10 \<Longrightarrow> ''0123456789'' ! k \<noteq> CHR ''/''"
proof -
  assume "k < 10"
  then have "''0123456789'' ! k \<in> set ''0123456789''"
    by (intro nth_mem) simp
  then show ?thesis by auto
qed

lemma str_nat_no_slash: "CHR ''/'' \<notin> set (str_nat n)"
proof (induction n rule: str_nat.induct)
  case (1 n)
  show ?case
  proof (cases "n < 10")
    case True
    then show ?thesis using digit_not_slash [of n] by (subst str_nat.simps) auto
  next
    case False
    have "n mod 10 < 10" by simp
    then show ?thesis
      using False "1.IH" digit_not_slash [of "n mod 10"]
      by (subst str_nat.simps) auto
  qed
qed

lemma str_int_no_slash: "CHR ''/'' \<notin> set (str_int i)"
  by (simp add: str_int_def str_nat_no_slash)

lemma checkpoint_name_no_slash: "CHR ''/'' \<notin> set (checkpoint_name e)"
  by (simp add: checkpoint_name_def str_int_no_slash)

lemma checkpoint_name_relative: "checkpoint_name e \<noteq> [] \<and> hd (checkpoint_name e) \<noteq> CHR ''/''"
  by (simp add: checkpoint_name_def)

lemma takeWhile_no_slash:
  "CHR ''/'' \<notin> set b \<Longrightarrow>
     takeWhile (\<lambda>c. c \<noteq> CHR ''/'') (rev b @ ys) = rev b @ takeWhile (\<lambda>c. c \<noteq> CHR ''/'') ys"
  by (rule takeWhile_append2) auto

lemma basename_append_slash:
  "CHR ''/'' \<notin> set b \<Longrightarrow> basename (a @ ''/'' @ b) = b"
  by (simp add: basename_def takeWhile_no_slash)

lemma basename_after_slash:
  assumes "CHR ''/'' \<notin> set b" and "a = [] \<or> last a = CHR ''/''"
  shows "basename (a @ b) = b"
proof (cases a rule: rev_cases)
  case Nil
  have tw: "takeWhile (\<lambda>c. c \<noteq> CHR ''/'') (rev b) = rev b"
    using assms(1) by (subst takeWhile_eq_all_conv) auto
  show ?thesis
    unfolding Nil basename_def by (simp only: append_Nil tw rev_rev_ident)
next
  case (snoc xs x)
  then have "x = CHR ''/''" using assms(2) by simp
  then show ?thesis
    using snoc by (simp add: basename_def takeWhile_no_slash [OF assms(1)])
qed

lemma path_join_checkpoint_name:
  "path_join d (checkpoint_name e) =
     (if d = [] \<or> last d = CHR ''/'' then d @ checkpoint_name e
      else d @ ''/'' @ checkpoint_name e)"
  using checkpoint_name_relative [of e] by (simp add: path_join_def)

lemma basename_path_join:
  "basename (path_join d (checkpoint_name e)) = checkpoint_name e"
proof (cases "d = [] \<or> last d = CHR ''/''")
  case True
  then show ?thesis
    using basename_after_slash [OF checkpoint_name_no_slash True, of e]
    by (simp only: path_join_checkpoint_name if_True)
next
  case False
  then show ?thesis
    using basename_append_slash [OF checkpoint_name_no_slash, of d e]
    by (simp only: path_join_checkpoint_name if_False)
qed

text \<open>
  C5. With a log directory \<open>d\<close>, \<open>save_checkpoint\<close> saves one record with exactly the five
  fields \<open>epoch\<close>, \<open>model_state_dict\<close>, \<open>optimizer_state_dict\<close>, \<open>train_loss\<close> and
  \<open>val_loss\<close>, holding its arguments, into a file whose name is
  \<^verbatim>\<open>checkpoint_epoch_<epoch>.pt\<close> and which lies in \<open>d\<close>: its path is \<open>d\<close>, a separator
  unless \<open>d\<close> is empty or ends with one, and the name.
\<close>

theorem save_checkpoint_record_and_path:
  assumes "log_dir t = PyStr d"
  shows "\<exists>path. save_checkpoint t epoch model_state optimizer_state train_loss val_loss =
           Inr [TorchSave [(''epoch'', PyInt epoch),
                           (''model_state_dict'', model_state),
                           (''optimizer_state_dict'', optimizer_state),
                           (''train_loss'', PyFloat train_loss),
                           (''val_loss'', PyFloat val_loss)] path,
                LoggerInfo (CheckpointSavedMsg epoch)]
         \<and> basename path = ''checkpoint_epoch_'' @ str_int epoch @ ''.pt''
         \<and> path = (if d = [] \<or> last d = CHR ''/'' then d @ basename path
                     else d @ ''/'' @ basename path)"
proof (intro exI [of _ "path_join d (checkpoint_name epoch)"] conjI)
  show "save_checkpoint t epoch model_state optimizer_state train_loss val_loss =
           Inr [TorchSave [(''epoch'', PyInt epoch),
                           (''model_state_dict'', model_state),
                           (''optimizer_state_dict'', optimizer_state),
                           (''train_loss'', PyFloat train_loss),
                           (''val_loss'', PyFloat val_loss)] (path_join d (checkpoint_name epoch)),
                LoggerInfo (CheckpointSavedMsg epoch)]"
    using assms by (simp add: save_checkpoint_def)
  show "basename (path_join d (checkpoint_name epoch)) = ''checkpoint_epoch_'' @ str_int epoch @ ''.pt''"
    unfolding basename_path_join by (simp add: checkpoint_name_def)
  show "path_join d (checkpoint_name epoch) =
          (if d = [] \<or> last d = CHR ''/''
           then d @ basename (path_join d (checkpoint_name epoch))
           else d @ ''/'' @ basename (path_join d (checkpoint_name epoch)))"
    unfolding basename_path_join
    by (simp add: path_join_checkpoint_name)
qed

text \<open>The checkpoint of epoch 7 of the sample trainer.\<close>

theorem save_checkpoint_record_and_path_witness:
  "\<exists>path. save_checkpoint sample_trainer 7 (PyObj 5) (PyObj 6) (Finite 2) (Finite 1) =
           Inr [TorchSave [(''epoch'', PyInt 7),
                           (''model_state_dict'', PyObj 5),
                           (''optimizer_state_dict'', PyObj 6),
                           (''train_loss'', PyFloat (Finite 2)),
                           (''val_loss'', PyFloat (Finite 1))] path,
                LoggerInfo (CheckpointSavedMsg 7)]
         \<and> basename path = ''checkpoint_epoch_7.pt''"
proof -
  have s: "str_int 7 = ''7''" by code_simp
  show ?thesis
    using save_checkpoint_record_and_path [OF sample_trainer_fields(3), of 7 "PyObj 5" "PyObj 6" "Finite 2" "Finite 1"]
    by (auto simp: s)
qed

section \<open>Patience\<close>

lemma early_stopping_zero_patience:
  "patience t = PyInt 0 \<Longrightarrow> 0 \<le> early_stopping_counter t \<Longrightarrow>
     snd (early_stopping t v) = Inr True"
  by (simp add: early_stopping_def Let_def)

text \<open>
  C10. A trainer with patience 0 whose counter is not negative (as after construction and
  after every call) gets \<open>True\<close> from every \<open>early_stopping\<close> call, whatever the loss;
  and \<open>train\<close>, when it has an epoch to run and its loaders are not empty, stops at epoch 0
  with one call of \<^verbatim>\<open>wandb.log\<close> and no checkpoint.
\<close>

theorem zero_patience_stops_first_epoch:
  assumes "patience t = PyInt 0" and "0 \<le> early_stopping_counter t"
  shows "(\<forall>vs v. snd (early_stopping (early_stopping_calls t vs) v) = Inr True)
     \<and> (\<forall>n (env :: nat \<Rightarrow> epoch_env). num_epochs t = PyInt n \<and> 0 < n
               \<and> train_batch_losses (env 0) \<noteq> [] \<and> val_batch_losses (env 0) \<noteq> []
          \<longrightarrow> snd (snd (train env t)) = EarlyStop 0
              \<and> length (wandb_logs (fst (snd (train env t)))) = 1
              \<and> torch_saves (fst (snd (train env t))) = [])"
proof (intro conjI allI impI)
  fix vs v
  show "snd (early_stopping (early_stopping_calls t vs) v) = Inr True"
    using assms by (simp add: early_stopping_zero_patience calls_fields counter_nonneg_calls)
next
  fix n and env :: "nat \<Rightarrow> epoch_env"
  assume h: "num_epochs t = PyInt n \<and> 0 < n
               \<and> train_batch_losses (env 0) \<noteq> [] \<and> val_batch_losses (env 0) \<noteq> []"
  then have upt: "[0..<nat n] = 0 # [Suc 0..<nat n]"
    by (simp add: upt_conv_Cons)
  obtain t1 where es: "early_stopping t (avg_val_loss (env 0)) = (t1, Inr True)"
    using early_stopping_zero_patience [OF assms, of "avg_val_loss (env 0)"]
    by (cases "early_stopping t (avg_val_loss (env 0))") auto
  have step: "train_epoch (env 0) 0 t =
      (t1, [LoggerInfo (TrainingLossMsg 0 (avg_loss (env 0))),
            LoggerInfo (ValidationLossMsg 0 (avg_val_loss (env 0))),
            WandbLog [(''epoch'', PyInt 0),
                      (''train_loss'', PyFloat (avg_loss (env 0))),
                      (''val_loss'', PyFloat (avg_val_loss (env 0)))],
            LoggerInfo (EarlyStoppingMsg 0)], Break)"
    using h es
    by (simp add: train_epoch_def average_loss_nonempty avg_loss_def [symmetric]
        avg_val_loss_def [symmetric] log_to_wandb_def)
  have tr: "train env t = (t1, [LoggerInfo (TrainingLossMsg 0 (avg_loss (env 0))),
            LoggerInfo (ValidationLossMsg 0 (avg_val_loss (env 0))),
            WandbLog [(''epoch'', PyInt 0),
                      (''train_loss'', PyFloat (avg_loss (env 0))),
                      (''val_loss'', PyFloat (avg_val_loss (env 0)))],
            LoggerInfo (EarlyStoppingMsg 0)], EarlyStop 0)"
    using h by (simp add: train_def upt step)
  show "snd (snd (train env t)) = EarlyStop 0" by (simp add: tr)
  show "length (wandb_logs (fst (snd (train env t)))) = 1" by (simp add: tr)
  show "torch_saves (fst (snd (train env t))) = []" by (simp add: tr)
qed

text \<open>The sample trainer with patience 0, on a loss that improves.\<close>

theorem zero_patience_stops_first_epoch_witness:
  "snd (early_stopping (sample_trainer\<lparr>patience := PyInt 0\<rparr>) (Finite 1)) = Inr True
   \<and> snd (snd (train sample_env (sample_trainer\<lparr>patience := PyInt 0\<rparr>))) = EarlyStop 0"
proof -
  let ?t = "sample_trainer\<lparr>patience := PyInt 0\<rparr>"
  have p: "patience ?t = PyInt 0" by simp
  have c: "0 \<le> early_stopping_counter ?t" by (simp add: sample_trainer_def)
  note inst = zero_patience_stops_first_epoch [OF p c]
  have a: "snd (early_stopping (early_stopping_calls ?t []) (Finite 1)) = Inr True"
    using inst by blast
  have h: "num_epochs ?t = PyInt 4 \<and> 0 < (4::int)
             \<and> train_batch_losses (sample_env 0) \<noteq> [] \<and> val_batch_losses (sample_env 0) \<noteq> []"
    by (simp add: sample_trainer_def sample_env_def)
  have b: "snd (snd (train sample_env ?t)) = EarlyStop 0"
    using inst h by blast
  show ?thesis using a b by (simp add: early_stopping_calls_def)
qed

lemma run_trainer_init:
  "SemanticSegmentationTrainer_init (run_trainer_args p mdl) =
     Inr \<lparr>model = mdl, train_loader = PyObj 1, val_loader = PyObj 2, criterion = PyObj 3,
          optimizer = PyObj 4, num_epochs = PyInt (pipeline_num_epochs p),
          patience = PyStr (pipeline_log_dir p), log_dir = PyStr ''logs'',
          early_stopping_counter = 0, best_val_loss = PosInf\<rparr>"
  by (simp add: SemanticSegmentationTrainer_init_def run_trainer_args_def trainer_defaults_def)





text \<open>With the placeholder class, \<open>run\<close> ends at \<^verbatim>\<open>UNet()\<close>, before the trainer.\<close>

lemma run_with_placeholder_UNet:
  "run p UNet env = ([WandbInit [], WandbConfigUpdate (wandb_config p)], Raised TypeError)"
  by (simp add: run_def UNet_def)

section \<open>The dataset wrapper\<close>



text \<open>Without a transform the wrapper returns the pair of the library dataset.\<close>

lemma getitem_without_transform:
  "voc idx = Inr (PyTuple [img, msk]) \<Longrightarrow>
     getitem (SemanticSegmentationDataset_init voc None) idx = Inr (img, msk)"
  by (simp add: getitem_def SemanticSegmentationDataset_init_def)

section \<open>Experiment tracking\<close>

lemma wandb_inits_append: "wandb_inits (xs @ ys) = wandb_inits xs @ wandb_inits ys"
  by (induction xs rule: wandb_inits.induct) simp_all

lemma wandb_config_updates_append:
  "wandb_config_updates (xs @ ys) = wandb_config_updates xs @ wandb_config_updates ys"
  by (induction xs rule: wandb_config_updates.induct) simp_all

lemma train_epoch_no_tracker_setup:
  assumes "train_epoch env e t = (t', evs, s)"
  shows "wandb_inits evs = [] \<and> wandb_config_updates evs = []"
  using assms
  by (auto simp: train_epoch_def log_to_wandb_def save_checkpoint_def Let_def
      split: sum.splits if_splits prod.splits bool.splits pyval.splits)

lemma train_epochs_no_tracker_setup:
  "train_epochs env es t = (t', evs, out) \<Longrightarrow>
     wandb_inits evs = [] \<and> wandb_config_updates evs = []"
proof (induction es arbitrary: t t' evs out)
  case Nil
  then show ?case by simp
next
  case (Cons e es)
  obtain t1 evs1 s where step: "train_epoch (env e) e t = (t1, evs1, s)"
    by (cases "train_epoch (env e) e t") auto
  note none1 = train_epoch_no_tracker_setup [OF step]
  show ?case
  proof (cases s)
    case Next
    obtain t2 evs2 out2 where rest: "train_epochs env es t1 = (t2, evs2, out2)"
      by (cases "train_epochs env es t1") auto
    have "evs = evs1 @ evs2" using Cons.prems step rest Next by simp
    then show ?thesis
      using none1 Cons.IH [OF rest]
      by (simp add: wandb_inits_append wandb_config_updates_append)
  next
    case Break
    then have "evs = evs1" using Cons.prems step by simp
    then show ?thesis using none1 by simp
  next
    case (Raise err)
    then have "evs = evs1" using Cons.prems step by simp
    then show ?thesis using none1 by simp
  qed
qed

lemma train_no_tracker_setup:
  "wandb_inits (fst (snd (train env t))) = []
   \<and> wandb_config_updates (fst (snd (train env t))) = []"
proof (cases "num_epochs t")
  case (PyInt n)
  obtain t' evs out where r: "train_epochs env [0..<nat n] t = (t', evs, out)"
    by (cases "train_epochs env [0..<nat n] t") auto
  show ?thesis
    using train_epochs_no_tracker_setup [OF r] PyInt r by (simp add: train_def)
qed (simp_all add: train_def)

lemma run_events:
  "\<exists>evs. fst (run p unet env) = WandbInit [] # WandbConfigUpdate (wandb_config p) # evs
        \<and> wandb_inits evs = [] \<and> wandb_config_updates evs = []"
proof (cases unet)
  case (Inl e)
  then show ?thesis by (simp add: run_def)
next
  case (Inr mdl)
  obtain t where t: "SemanticSegmentationTrainer_init (run_trainer_args p mdl) = Inr t"
    using run_trainer_init by blast
  show ?thesis
    using train_no_tracker_setup [of env t] Inr t
    by (cases "train env t") (simp add: run_def)
qed

text \<open>
  C7, as the program has it. \<open>run\<close> first calls \<^verbatim>\<open>wandb.init()\<close> without any argument,
  so without a project name, and then updates the configuration once, with exactly the
  seven hyperparameters of the pipeline. The project name \<^verbatim>\<open>semantic-segmentation\<close> is
  given by the script block, in its own call of \<^verbatim>\<open>wandb.init\<close> before \<open>run\<close>.
\<close>

theorem run_tracker_setup:
  "take 2 (fst (run p unet env)) =
     [WandbInit [],
      WandbConfigUpdate [(''root'', PyStr (root p)),
                         (''year'', PyStr (year p)),
                         (''train_batch_size'', PyInt (train_batch_size p)),
                         (''val_batch_size'', PyInt (val_batch_size p)),
                         (''num_epochs'', PyInt (pipeline_num_epochs p)),
                         (''seed'', PyInt (seed p)),
                         (''log_dir'', PyStr (pipeline_log_dir p))]]
   \<and> wandb_inits (fst (run p unet env)) = [[]]
   \<and> length (wandb_config_updates (fst (run p unet env))) = 1
   \<and> wandb_inits (fst (main_block unet env)) =
       [[(''project'', PyStr ''semantic-segmentation'')], []]"
proof -
  obtain evs where evs: "fst (run p unet env) = WandbInit [] # WandbConfigUpdate (wandb_config p) # evs"
    "wandb_inits evs = []" "wandb_config_updates evs = []"
    using run_events by blast
  have m: "wandb_inits (fst (main_block unet env)) =
       [[(''project'', PyStr ''semantic-segmentation'')], []]"
    using run_events [of SemanticSegmentationPipeline_default unet env]
    by (cases "run SemanticSegmentationPipeline_default unet env")
       (auto simp: main_block_def wandb_inits_append split: outcome.splits)
  show ?thesis
    using evs m by (simp add: wandb_config_def)
qed

text \<open>The first two events of a run of the default pipeline.\<close>

theorem run_tracker_setup_witness:
  "take 2 (fst (run SemanticSegmentationPipeline_default UNet sample_env)) =
     [WandbInit [],
      WandbConfigUpdate [(''root'', PyStr ''./data''),
                         (''year'', PyStr ''2012''),
                         (''train_batch_size'', PyInt 64),
                         (''val_batch_size'', PyInt 64),
                         (''num_epochs'', PyInt 10),
                         (''seed'', PyInt 42),
                         (''log_dir'', PyStr ''logs'')]]"
  using run_tracker_setup [of SemanticSegmentationPipeline_default UNet sample_env]
  by (simp add: SemanticSegmentationPipeline_default_def)

text \<open>
  C7 as stated fails: the one \<^verbatim>\<open>wandb.init\<close> call that \<open>run\<close> makes (here for the
  default pipeline) has no keyword argument, so no project name.
\<close>

theorem run_init_has_no_project:
  "wandb_inits (fst (run SemanticSegmentationPipeline_default UNet sample_env)) = [[]]
   \<and> map_of (hd (wandb_inits (fst (run SemanticSegmentationPipeline_default UNet sample_env))))
         ''project'' = None"
  by code_simp

end
